theory Spec2Isabelle
  imports Complex_Main
begin

section \<open>Configuration\<close>

text \<open>
  The source keeps its settings in the global dictionary \<open>CONFIG\<close>. The three entries
  that the monitoring logic reads are the two distance thresholds and the e-mail delay;
  the functions below take the configuration as an argument, and \<open>CONFIG\<close> is the value
  the source fixes. The thresholds and the delay are Python ints.
\<close>

record config =
  DISTANCE_THRESHOLDS_EMPTY :: int
  DISTANCE_THRESHOLDS_HALF_FULL :: int
  EMAIL_DELAY :: int

definition CONFIG :: config where
  "CONFIG = \<lparr> DISTANCE_THRESHOLDS_EMPTY = 30,
              DISTANCE_THRESHOLDS_HALF_FULL = 10,
              EMAIL_DELAY = 300 \<rparr>"

section \<open>The monitor object\<close>

text \<open>
  \<open>WasteBinMonitor\<close> holds three output pins for the LEDs (a pin is on or off) and the
  three session attributes. \<open>time.time()\<close> is an integer number of seconds on
  MicroPython, so \<open>last_email_time\<close> is an \<open>int\<close>.
\<close>

record monitor =
  green_led :: bool
  yellow_led :: bool
  red_led :: bool
  last_email_time :: int
  is_currently_full :: bool
  first_full_detection :: bool

text \<open>
  \<open>__init__\<close>: the pins are created as outputs without an initial value, so the LED
  levels at construction are whatever the hardware holds; they are arguments here.
\<close>

definition init :: "bool \<Rightarrow> bool \<Rightarrow> bool \<Rightarrow> monitor" where
  "init g y r = \<lparr> green_led = g, yellow_led = y, red_led = r,
                  last_email_time = 0,
                  is_currently_full = False,
                  first_full_detection = True \<rparr>"

section \<open>Sending the alert\<close>

text \<open>
  \<open>urequests.post\<close> either returns a response carrying a status code or raises.
  \<open>send_email_alert\<close> returns \<open>response.status_code == 201\<close>, and \<open>False\<close> from its
  \<open>except Exception\<close> handler.
\<close>

datatype post_outcome = Response int | PostRaised

fun send_email_alert :: "post_outcome \<Rightarrow> bool" where
  "send_email_alert (Response status_code) = (status_code = 201)"
| "send_email_alert PostRaised = False"

text \<open>\<open>should_send_email\<close>, with the value read from \<open>time.time()\<close> as an argument.\<close>

definition should_send_email :: "config \<Rightarrow> int \<Rightarrow> monitor \<Rightarrow> bool" where
  "should_send_email cfg current_time m =
     (if first_full_detection m then True
      else if current_time - last_email_time m \<ge> EMAIL_DELAY cfg then True
      else False)"

section \<open>Updating the bin status\<close>

text \<open>
  What one call of \<open>update_bin_status\<close> reads from outside the object: the clock read
  inside \<open>should_send_email\<close>, the outcome of the HTTP post, and the clock read after a
  successful send (a later call of \<open>time.time()\<close>, so a separate value).
\<close>

record alert_env =
  clock_check :: int
  post_result :: post_outcome
  clock_sent :: int

text \<open>The three branches of \<open>update_bin_status\<close>, in the order of the source.\<close>

definition branch_empty :: "monitor \<Rightarrow> monitor" where
  "branch_empty m =
     (let m1 = m\<lparr> green_led := True, yellow_led := False, red_led := False \<rparr>
      in if is_currently_full m1
         then m1\<lparr> is_currently_full := False, first_full_detection := True \<rparr>
         else m1)"

definition branch_partial :: "monitor \<Rightarrow> monitor" where
  "branch_partial m =
     (let m1 = m\<lparr> green_led := False, yellow_led := True, red_led := False \<rparr>
      in if is_currently_full m1
         then m1\<lparr> is_currently_full := False, first_full_detection := True \<rparr>
         else m1)"

text \<open>
  The full branch up to the call of \<open>should_send_email\<close> (the LED writes and the
  \<open>is_currently_full\<close> flag), and the notification part after it.
\<close>

definition full_entry :: "monitor \<Rightarrow> monitor" where
  "full_entry m =
     (let m1 = m\<lparr> green_led := False, yellow_led := False, red_led := True \<rparr>
      in if \<not> is_currently_full m1 then m1\<lparr> is_currently_full := True \<rparr> else m1)"

definition notify :: "config \<Rightarrow> alert_env \<Rightarrow> monitor \<Rightarrow> monitor" where
  "notify cfg env m =
     (if should_send_email cfg (clock_check env) m then
        (if send_email_alert (post_result env)
         then m\<lparr> last_email_time := clock_sent env, first_full_detection := False \<rparr>
         else m)
      else m)"

definition branch_full :: "config \<Rightarrow> alert_env \<Rightarrow> monitor \<Rightarrow> monitor" where
  "branch_full cfg env m = notify cfg env (full_entry m)"

text \<open>
  The distance is a Python float (or the int 100); comparing it with an int threshold
  compares the two numbers exactly, so the distance is a real here.
\<close>

definition update_bin_status :: "config \<Rightarrow> alert_env \<Rightarrow> real \<Rightarrow> monitor \<Rightarrow> monitor" where
  "update_bin_status cfg env distance m =
     (if distance > real_of_int (DISTANCE_THRESHOLDS_EMPTY cfg) then branch_empty m
      else if distance > real_of_int (DISTANCE_THRESHOLDS_HALF_FULL cfg) then branch_partial m
      else branch_full cfg env m)"

text \<open>
  The fill level a state shows on its LEDs: green alone is empty, yellow alone is
  partially full, red alone is full; any other pattern shows no level.
\<close>

datatype fill_level = Empty | Partial | Full

definition shown_level :: "monitor \<Rightarrow> fill_level option" where
  "shown_level m =
     (if green_led m \<and> \<not> yellow_led m \<and> \<not> red_led m then Some Empty
      else if \<not> green_led m \<and> yellow_led m \<and> \<not> red_led m then Some Partial
      else if \<not> green_led m \<and> \<not> yellow_led m \<and> red_led m then Some Full
      else None)"

text \<open>The ordering of the levels by fullness.\<close>

fun fullness :: "fill_level \<Rightarrow> nat" where
  "fullness Empty = 0"
| "fullness Partial = 1"
| "fullness Full = 2"

text \<open>
  Successive calls of \<open>update_bin_status\<close>, one per reading, each with what it reads
  from outside: the sequence of updates the monitoring loop performs on the object.
\<close>

fun update_sequence :: "config \<Rightarrow> (alert_env \<times> real) list \<Rightarrow> monitor \<Rightarrow> monitor" where
  "update_sequence cfg [] m = m"
| "update_sequence cfg ((env, distance) # rest) m =
     update_sequence cfg rest (update_bin_status cfg env distance m)"

section \<open>Measuring the distance\<close>

text \<open>
  The tick functions of MicroPython's \<open>time\<close> module: tick values live in
  \<open>[0, TICKS_PERIOD)\<close> and wrap around; \<open>ticks_add\<close> adds modulo the period and
  \<open>ticks_diff\<close> is the signed difference in \<open>[-TICKS_PERIOD/2, TICKS_PERIOD/2)\<close>.
  The period is \<open>2 ^ 30\<close> on the port the source runs on.
\<close>

definition TICKS_PERIOD :: int where
  "TICKS_PERIOD = 2 ^ 30"

definition ticks_add :: "int \<Rightarrow> int \<Rightarrow> int" where
  "ticks_add ticks delta = (ticks + delta) mod TICKS_PERIOD"

definition ticks_diff :: "int \<Rightarrow> int \<Rightarrow> int" where
  "ticks_diff ticks1 ticks2 =
     (ticks1 - ticks2 + TICKS_PERIOD div 2) mod TICKS_PERIOD - TICKS_PERIOD div 2"

text \<open>
  What \<open>measure_distance\<close> reads from the hardware, in the order it reads it: the
  successive values of the echo pin (\<open>True\<close> is 1) and the successive values of
  \<open>time.ticks_us()\<close>. Both are finite prefixes of what the hardware would deliver; a
  function that needs a reading beyond the prefix has not finished within it, which is
  the result \<open>None\<close>.
\<close>

record sensor =
  echo_values :: "bool list"
  ticks :: "int list"

text \<open>
  How a wait loop is left: by its deadline check (\<open>return 100\<close>), or by its loop
  condition, with the time stamp it recorded last and the readings not yet consumed.
\<close>

datatype wait = Expired | Passed int "bool list" "int list"

text \<open>
  \<open>while self.echo.value() == 0\<close>: every round reads the pin; while it is 0, the round
  reads the clock twice, first into \<open>pulse_start\<close>, then for the deadline check.
\<close>

fun wait_while_low :: "int \<Rightarrow> int \<Rightarrow> bool list \<Rightarrow> int list \<Rightarrow> wait option" where
  "wait_while_low timeout pulse_start [] ts = None"
| "wait_while_low timeout pulse_start (e # es) ts =
     (if e = False then
        (case ts of
           t1 # t2 # ts' \<Rightarrow>
             if ticks_diff t2 timeout > 0 then Some Expired
             else wait_while_low timeout t1 es ts'
         | _ \<Rightarrow> None)
      else Some (Passed pulse_start es ts))"

text \<open>\<open>while self.echo.value() == 1\<close>, recording \<open>pulse_end\<close> in the same way.\<close>

fun wait_while_high :: "int \<Rightarrow> int \<Rightarrow> bool list \<Rightarrow> int list \<Rightarrow> wait option" where
  "wait_while_high timeout pulse_end [] ts = None"
| "wait_while_high timeout pulse_end (e # es) ts =
     (if e = True then
        (case ts of
           t1 # t2 # ts' \<Rightarrow>
             if ticks_diff t2 timeout > 0 then Some Expired
             else wait_while_high timeout t1 es ts'
         | _ \<Rightarrow> None)
      else Some (Passed pulse_end es ts))"

text \<open>
  \<open>measure_distance\<close>. The trigger pulse before the first clock reading writes the
  trigger pin only and does not enter the result. Both \<open>pulse_start\<close> and \<open>pulse_end\<close>
  start at the first clock reading. The result is the int 100 on a deadline, otherwise
  the float \<open>(pulse_duration / 2) / 29.1\<close>; it is a real here, with the quotient taken
  exactly.
\<close>

definition measure_distance :: "sensor \<Rightarrow> real option" where
  "measure_distance w =
     (case ticks w of
        [] \<Rightarrow> None
      | t0 # ts \<Rightarrow>
          (let timeout = ticks_add t0 30000 in
           case wait_while_low timeout t0 (echo_values w) ts of
             None \<Rightarrow> None
           | Some Expired \<Rightarrow> Some 100
           | Some (Passed pulse_start es ts1) \<Rightarrow>
               (case wait_while_high timeout t0 es ts1 of
                  None \<Rightarrow> None
                | Some Expired \<Rightarrow> Some 100
                | Some (Passed pulse_end es2 ts2) \<Rightarrow>
                    (let pulse_duration = ticks_diff pulse_end pulse_start
                     in Some (real_of_int pulse_duration / 2 / 29.1)))))"

section \<open>Connecting and the monitoring loop\<close>

text \<open>
  \<open>connect_wifi\<close>: the start time, and for each round of the polling loop the value of
  \<open>isconnected()\<close> and the clock the round reads when not connected. \<open>None\<close>: still
  polling after the given rounds.
\<close>

fun connect_wifi :: "int \<Rightarrow> (bool \<times> int) list \<Rightarrow> bool option" where
  "connect_wifi start_time [] = None"
| "connect_wifi start_time ((isconnected, now) # polls) =
     (if \<not> isconnected then
        (if now - start_time > 10 then Some False
         else connect_wifi start_time polls)
      else Some True)"

text \<open>
  An exception can leave the body of the loop from the measurement, from the
  classification at the start of \<open>update_bin_status\<close>, or from the notification step
  of its full branch (outside the \<open>try\<close> of \<open>send_email_alert\<close>, whose own handler
  turns an exception of the post into the result \<open>False\<close>). Its class either derives from
  \<open>Exception\<close> or, like \<open>KeyboardInterrupt\<close>, only from \<open>BaseException\<close>. Which
  exception occurs in a cycle, if any, belongs to what the cycle reads from outside. What
  the object has been assigned before the exception stays assigned.
\<close>

datatype stage = Measurement | Classification | Notification

datatype exc_class = ExceptionClass | BaseExceptionOnly

datatype fault = Fault stage exc_class

fun raised_in :: "fault \<Rightarrow> stage" where
  "raised_in (Fault s c) = s"

text \<open>\<open>isinstance(e, Exception)\<close>: what \<open>except Exception\<close> tests.\<close>

fun is_Exception :: "fault \<Rightarrow> bool" where
  "is_Exception (Fault s c) = (c = ExceptionClass)"

record cycle_input =
  fault_in :: "fault option"
  sensor_in :: sensor
  alert_in :: alert_env

text \<open>
  The body of the \<open>try\<close> up to the sleep: the exception that left it, if any, and the
  object afterwards. \<open>None\<close>: the measurement has not finished within its readings.
  An exception of the measurement leaves before \<open>update_bin_status\<close> is called, one of
  the classification before \<open>update_bin_status\<close> assigns anything; the notification
  step runs for a full reading only, after the LED writes and the flag of that branch.
\<close>

definition loop_body :: "config \<Rightarrow> cycle_input \<Rightarrow> monitor \<Rightarrow> (fault option \<times> monitor) option" where
  "loop_body cfg inp m =
     (if map_option raised_in (fault_in inp) = Some Measurement then Some (fault_in inp, m)
      else
        (case measure_distance (sensor_in inp) of
           None \<Rightarrow> None
         | Some distance \<Rightarrow>
             if map_option raised_in (fault_in inp) = Some Classification
             then Some (fault_in inp, m)
             else if map_option raised_in (fault_in inp) = Some Notification
                     \<and> \<not> distance > real_of_int (DISTANCE_THRESHOLDS_EMPTY cfg)
                     \<and> \<not> distance > real_of_int (DISTANCE_THRESHOLDS_HALF_FULL cfg)
             then Some (fault_in inp, full_entry m)
             else Some (None, update_bin_status cfg (alert_in inp) distance m)))"

text \<open>
  One round of \<open>while True\<close>. \<open>time.sleep(10)\<close> ends a body that no exception left.
  The handler of \<open>except Exception\<close> takes an exception whose class derives from
  \<open>Exception\<close> and sleeps 5 seconds; the round then ends with the stage the exception
  came from, the seconds slept and the object. Any other exception is not handled and
  leaves the loop.
\<close>

datatype cycle_end = Slept "stage option" nat monitor | Escaped fault monitor

definition cycle :: "config \<Rightarrow> cycle_input \<Rightarrow> monitor \<Rightarrow> cycle_end option" where
  "cycle cfg inp m =
     (case loop_body cfg inp m of
        None \<Rightarrow> None
      | Some (None, m') \<Rightarrow> Some (Slept None 10 m')
      | Some (Some e, m') \<Rightarrow>
          if is_Exception e then Some (Slept (Some (raised_in e)) 5 m')
          else Some (Escaped e m'))"

text \<open>
  The loop over a finite prefix of cycle inputs. It has no \<open>break\<close> and no \<open>return\<close>:
  after the prefix it is still running, with the record of its rounds so far (what was
  caught, seconds slept), unless an exception that was not handled has left it.
\<close>

datatype loop_state =
  Looping "(stage option \<times> nat) list" monitor
  | Propagated "(stage option \<times> nat) list" fault monitor

fun add_round :: "stage option \<times> nat \<Rightarrow> loop_state \<Rightarrow> loop_state" where
  "add_round r (Looping rs m) = Looping (r # rs) m"
| "add_round r (Propagated rs e m) = Propagated (r # rs) e m"

fun monitor_loop :: "config \<Rightarrow> cycle_input list \<Rightarrow> monitor \<Rightarrow> loop_state option" where
  "monitor_loop cfg [] m = Some (Looping [] m)"
| "monitor_loop cfg (inp # rest) m =
     (case cycle cfg inp m of
        None \<Rightarrow> None
      | Some (Escaped e m') \<Rightarrow> Some (Propagated [] e m')
      | Some (Slept s n m') \<Rightarrow> map_option (add_round (s, n)) (monitor_loop cfg rest m'))"

text \<open>
  \<open>run\<close>: it returns at once when \<open>connect_wifi\<close> fails, and enters the loop
  otherwise.
\<close>

datatype run_state = Returned | InLoop loop_state

definition run ::
  "config \<Rightarrow> int \<Rightarrow> (bool \<times> int) list \<Rightarrow> cycle_input list \<Rightarrow> monitor \<Rightarrow> run_state option" where
  "run cfg start_time polls inputs m =
     (case connect_wifi start_time polls of
        None \<Rightarrow> None
      | Some wifi_ok \<Rightarrow>
          if \<not> wifi_ok then Some Returned
          else map_option InLoop (monitor_loop cfg inputs m))"



section \<open>Properties of the classification\<close>

lemmas branch_defs = branch_empty_def branch_partial_def branch_full_def full_entry_def notify_def

lemma config_simps:
  "DISTANCE_THRESHOLDS_EMPTY CONFIG = 30"
  "DISTANCE_THRESHOLDS_HALF_FULL CONFIG = 10"
  "EMAIL_DELAY CONFIG = 300"
  by (simp_all add: CONFIG_def)

lemma leds_after_update:
  "green_led (update_bin_status cfg env d m) = (d > real_of_int (DISTANCE_THRESHOLDS_EMPTY cfg))"
  "yellow_led (update_bin_status cfg env d m) =
     (\<not> d > real_of_int (DISTANCE_THRESHOLDS_EMPTY cfg) \<and> d > real_of_int (DISTANCE_THRESHOLDS_HALF_FULL cfg))"
  "red_led (update_bin_status cfg env d m) =
     (\<not> d > real_of_int (DISTANCE_THRESHOLDS_EMPTY cfg) \<and> \<not> d > real_of_int (DISTANCE_THRESHOLDS_HALF_FULL cfg))"
  by (simp_all add: update_bin_status_def branch_defs Let_def)

text \<open>
  Claim C1, as the code has it. With the configured thresholds 30 and 10, a call of
  \<open>update_bin_status\<close> shows empty for every distance above 30, partially full for
  every distance above 10 and at most 30, and full for every distance of at most 10. A
  reading exactly equal to the empty threshold shows partially full (the comparison is
  \<open>distance > 30\<close>), and a reading exactly equal to the half-full threshold shows full.
  This holds for every real distance, the non-negative ones among them.
\<close>

theorem classification_thresholds:
  "(d > 30 \<longrightarrow> shown_level (update_bin_status CONFIG env d m) = Some Empty)
   \<and> (10 < d \<and> d \<le> 30 \<longrightarrow> shown_level (update_bin_status CONFIG env d m) = Some Partial)
   \<and> (d \<le> 10 \<longrightarrow> shown_level (update_bin_status CONFIG env d m) = Some Full)
   \<and> shown_level (update_bin_status CONFIG env 30 m) = Some Partial
   \<and> shown_level (update_bin_status CONFIG env 10 m) = Some Full"
  by (simp add: shown_level_def leds_after_update config_simps)

text \<open>
  The three ranges at the readings 50, 25 and 8.
\<close>

theorem classification_thresholds_witness:
  "shown_level (update_bin_status CONFIG \<lparr> clock_check = 0, post_result = PostRaised, clock_sent = 0 \<rparr> 50 (init False False False)) = Some Empty
   \<and> shown_level (update_bin_status CONFIG \<lparr> clock_check = 0, post_result = PostRaised, clock_sent = 0 \<rparr> 25 (init False False False)) = Some Partial
   \<and> shown_level (update_bin_status CONFIG \<lparr> clock_check = 0, post_result = PostRaised, clock_sent = 0 \<rparr> 8 (init False False False)) = Some Full"
  using classification_thresholds [of 50 "\<lparr> clock_check = 0, post_result = PostRaised, clock_sent = 0 \<rparr>" "init False False False"]
    classification_thresholds [of 25 "\<lparr> clock_check = 0, post_result = PostRaised, clock_sent = 0 \<rparr>" "init False False False"]
    classification_thresholds [of 8 "\<lparr> clock_check = 0, post_result = PostRaised, clock_sent = 0 \<rparr>" "init False False False"]
  by simp

text \<open>
  The reading 30 does not show empty: the tie-break "exactly equal to the empty
  boundary is empty" fails on the code.
\<close>

theorem empty_boundary_counterexample:
  "shown_level (update_bin_status CONFIG
      \<lparr> clock_check = 0, post_result = PostRaised, clock_sent = 0 \<rparr> 30
      (init False False False)) \<noteq> Some Empty"
  by (simp add: shown_level_def leds_after_update config_simps)

text \<open>
  Claim C8. After every call of \<open>update_bin_status\<close>, whatever the distance, the
  outside world and the object before, exactly one of the three LEDs is on: green alone
  in the empty branch, yellow alone in the partial branch, red alone in the full branch.
\<close>

theorem one_led_active:
  "length (filter (\<lambda>b. b) [green_led (update_bin_status cfg env d m),
                            yellow_led (update_bin_status cfg env d m),
                            red_led (update_bin_status cfg env d m)]) = 1
   \<and> (green_led (update_bin_status cfg env d m),
       yellow_led (update_bin_status cfg env d m),
       red_led (update_bin_status cfg env d m)) =
      (if d > real_of_int (DISTANCE_THRESHOLDS_EMPTY cfg) then (True, False, False)
       else if d > real_of_int (DISTANCE_THRESHOLDS_HALF_FULL cfg) then (False, True, False)
       else (False, False, True))"
  by (simp add: leds_after_update)

text \<open>
  Claim C10. The classification is monotone: for distances \<open>d1 \<le> d2\<close> the level shown
  for \<open>d1\<close> is at least as full as the level shown for \<open>d2\<close>. This holds for every
  pair of thresholds, so in particular for the configured ones with the empty threshold
  above the half-full one.
\<close>

theorem classification_monotone:
  assumes "d1 \<le> d2"
  shows "\<exists>l1 l2. shown_level (update_bin_status cfg env1 d1 m1) = Some l1
           \<and> shown_level (update_bin_status cfg env2 d2 m2) = Some l2
           \<and> fullness l2 \<le> fullness l1"
  using assms by (auto simp add: shown_level_def leds_after_update)

text \<open>
  The readings 5 and 20 under the configured thresholds.
\<close>

theorem classification_monotone_witness:
  "\<exists>l1 l2. shown_level (update_bin_status CONFIG \<lparr> clock_check = 0, post_result = PostRaised, clock_sent = 0 \<rparr> 5 (init False False False)) = Some l1
     \<and> shown_level (update_bin_status CONFIG \<lparr> clock_check = 1, post_result = PostRaised, clock_sent = 1 \<rparr> 20 (init False False False)) = Some l2
     \<and> fullness l2 \<le> fullness l1"
proof -
  have h: "(5::real) \<le> 20" by simp
  show ?thesis
    using classification_monotone [OF h] by blast
qed

section \<open>Properties of the notification throttle\<close>

lemma full_entry_email_state:
  "first_full_detection (full_entry m) = first_full_detection m"
  "last_email_time (full_entry m) = last_email_time m"
  by (simp_all add: full_entry_def Let_def)

lemma should_send_email_full_entry:
  "should_send_email cfg t (full_entry m) = should_send_email cfg t m"
  by (simp add: should_send_email_def full_entry_def Let_def)

lemma is_currently_full_after_update:
  "is_currently_full (update_bin_status cfg env d m) =
     (\<not> d > real_of_int (DISTANCE_THRESHOLDS_EMPTY cfg) \<and> \<not> d > real_of_int (DISTANCE_THRESHOLDS_HALF_FULL cfg))"
  by (simp add: update_bin_status_def branch_defs Let_def)

lemma not_full_update:
  assumes "d > 10"
  shows "first_full_detection (update_bin_status CONFIG env d m) =
           (first_full_detection m \<or> is_currently_full m)"
    and "last_email_time (update_bin_status CONFIG env d m) = last_email_time m"
  using assms by (auto simp add: update_bin_status_def branch_defs Let_def config_simps)

lemma full_update:
  assumes "d \<le> 10"
  shows "first_full_detection (update_bin_status CONFIG env d m) =
           (first_full_detection m \<and>
            \<not> (should_send_email CONFIG (clock_check env) m \<and> send_email_alert (post_result env)))"
    and "last_email_time (update_bin_status CONFIG env d m) =
           (if should_send_email CONFIG (clock_check env) m \<and> send_email_alert (post_result env)
            then clock_sent env else last_email_time m)"
  using assms
  by (auto simp add: update_bin_status_def branch_defs Let_def config_simps should_send_email_def)

lemma not_full_sequence:
  assumes "\<forall>p \<in> set rs. snd p > 10"
  shows "first_full_detection (update_sequence CONFIG rs m) =
           (first_full_detection m \<or> (rs \<noteq> [] \<and> is_currently_full m))
         \<and> last_email_time (update_sequence CONFIG rs m) = last_email_time m
         \<and> is_currently_full (update_sequence CONFIG rs m) = (rs = [] \<and> is_currently_full m)"
  using assms
proof (induction rs arbitrary: m)
  case Nil
  then show ?case by simp
next
  case (Cons p rs)
  obtain env d where p: "p = (env, d)" by (cases p)
  from Cons.prems p have d: "d > 10" and rest: "\<forall>q \<in> set rs. snd q > 10" by auto
  from d have nf: "is_currently_full (update_bin_status CONFIG env d m) = False"
    by (simp add: is_currently_full_after_update config_simps)
  show ?case
    using Cons.IH [OF rest, of "update_bin_status CONFIG env d m"] nf
    by (auto simp add: p not_full_update [OF d])
qed

text \<open>
  Claim C2. From a freshly constructed object, after any number of readings that are
  not full, the first full reading finds \<open>should_send_email\<close> true at its call. When
  the send of that iteration succeeds, \<open>last_email_time\<close> is the clock read after the
  send, and a second full reading whose clock is less than the e-mail delay after it
  finds \<open>should_send_email\<close> false and leaves \<open>last_email_time\<close> as it is.
\<close>

theorem fresh_session_throttle:
  assumes "\<forall>p \<in> set pre. snd p > 10"
    and "d1 \<le> 10" and "d2 \<le> 10"
    and "send_email_alert (post_result env1)"
    and "clock_check env2
           - last_email_time (update_bin_status CONFIG env1 d1 (update_sequence CONFIG pre (init g y r)))
         < EMAIL_DELAY CONFIG"
  shows "should_send_email CONFIG (clock_check env1)
           (full_entry (update_sequence CONFIG pre (init g y r)))
         \<and> last_email_time (update_bin_status CONFIG env1 d1 (update_sequence CONFIG pre (init g y r)))
             = clock_sent env1
         \<and> \<not> should_send_email CONFIG (clock_check env2)
               (full_entry (update_bin_status CONFIG env1 d1 (update_sequence CONFIG pre (init g y r))))
         \<and> last_email_time
             (update_bin_status CONFIG env2 d2
                (update_bin_status CONFIG env1 d1 (update_sequence CONFIG pre (init g y r))))
             = clock_sent env1"
proof -
  let ?m1 = "update_sequence CONFIG pre (init g y r)"
  let ?m2 = "update_bin_status CONFIG env1 d1 ?m1"
  have ffd1: "first_full_detection ?m1"
    using not_full_sequence [OF assms(1), of "init g y r"] by (simp add: init_def)
  then have s1: "should_send_email CONFIG (clock_check env1) ?m1"
    by (simp add: should_send_email_def)
  have l2: "last_email_time ?m2 = clock_sent env1"
    using s1 assms(4) by (simp add: full_update [OF assms(2)])
  have ffd2: "\<not> first_full_detection ?m2"
    using s1 assms(4) by (simp add: full_update [OF assms(2)])
  have s2: "\<not> should_send_email CONFIG (clock_check env2) ?m2"
    using ffd2 assms(5) by (simp add: should_send_email_def)
  have l3: "last_email_time (update_bin_status CONFIG env2 d2 ?m2) = clock_sent env1"
    using s2 l2 by (simp add: full_update [OF assms(3)])
  show ?thesis
    using s1 l2 s2 l3 by (simp add: should_send_email_full_entry)
qed

text \<open>
  The readings 50, 25, 8, 8 at the times 0, 1, 2, 3.
\<close>

theorem fresh_session_throttle_witness:
  "should_send_email CONFIG 2
     (full_entry (update_sequence CONFIG
        [(\<lparr> clock_check = 0, post_result = Response 201, clock_sent = 0 \<rparr>, 50),
         (\<lparr> clock_check = 1, post_result = Response 201, clock_sent = 1 \<rparr>, 25)]
        (init False False False)))
   \<and> \<not> should_send_email CONFIG 3
       (full_entry (update_bin_status CONFIG
          \<lparr> clock_check = 2, post_result = Response 201, clock_sent = 2 \<rparr> 8
          (update_sequence CONFIG
            [(\<lparr> clock_check = 0, post_result = Response 201, clock_sent = 0 \<rparr>, 50),
             (\<lparr> clock_check = 1, post_result = Response 201, clock_sent = 1 \<rparr>, 25)]
            (init False False False))))"
proof -
  let ?pre = "[(\<lparr> clock_check = 0, post_result = Response 201, clock_sent = 0 \<rparr>, 50::real),
               (\<lparr> clock_check = 1, post_result = Response 201, clock_sent = 1 \<rparr>, 25)]"
  let ?env1 = "\<lparr> clock_check = 2, post_result = Response 201, clock_sent = 2 \<rparr>"
  let ?env2 = "\<lparr> clock_check = 3, post_result = Response 201, clock_sent = 3 \<rparr>"
  have h1: "\<forall>p \<in> set ?pre. snd p > 10" by simp
  have h2: "(8::real) \<le> 10" by simp
  have h4: "send_email_alert (post_result ?env1)" by simp
  have h5: "clock_check ?env2
              - last_email_time (update_bin_status CONFIG ?env1 8
                  (update_sequence CONFIG ?pre (init False False False)))
            < EMAIL_DELAY CONFIG"
    by (simp add: update_bin_status_def branch_defs Let_def config_simps
        should_send_email_def init_def)
  show ?thesis
    using fresh_session_throttle [OF h1 h2 h2 h4 h5] by simp
qed

text \<open>
  Claim C3. With \<open>first_full_detection\<close> false, a full reading whose clock is at least
  the e-mail delay (300) after \<open>last_email_time\<close> finds \<open>should_send_email\<close> true,
  the case of exactly 300 included; a successful send is then recorded.
\<close>

theorem cooldown_elapsed_sends:
  assumes "\<not> first_full_detection m"
    and "d \<le> 10"
    and "clock_check env - last_email_time m \<ge> EMAIL_DELAY CONFIG"
  shows "should_send_email CONFIG (clock_check env) (full_entry m)
         \<and> (send_email_alert (post_result env) \<longrightarrow>
              last_email_time (update_bin_status CONFIG env d m) = clock_sent env)"
  using assms
  by (simp add: full_update should_send_email_def full_entry_email_state)

text \<open>
  The elapsed time is exactly the delay: last e-mail at 2, clock at 302.
\<close>

theorem cooldown_elapsed_sends_witness:
  "should_send_email CONFIG 302
     (full_entry \<lparr> green_led = False, yellow_led = False, red_led = True,
                   last_email_time = 2, is_currently_full = True,
                   first_full_detection = False \<rparr>)
   \<and> last_email_time
       (update_bin_status CONFIG \<lparr> clock_check = 302, post_result = Response 201, clock_sent = 303 \<rparr> 8
          \<lparr> green_led = False, yellow_led = False, red_led = True,
            last_email_time = 2, is_currently_full = True,
            first_full_detection = False \<rparr>) = 303"
proof -
  let ?m = "\<lparr> green_led = False, yellow_led = False, red_led = True,
              last_email_time = 2, is_currently_full = True,
              first_full_detection = False \<rparr>"
  let ?env = "\<lparr> clock_check = 302, post_result = Response 201, clock_sent = 303 \<rparr>"
  have h1: "\<not> first_full_detection ?m" by simp
  have h2: "(8::real) \<le> 10" by simp
  have h3: "clock_check ?env - last_email_time ?m \<ge> EMAIL_DELAY CONFIG"
    by (simp add: config_simps)
  show ?thesis
    using cooldown_elapsed_sends [OF h1 h2 h3] by simp
qed

text \<open>
  Claim C4. For every object, a reading that is not full while \<open>is_currently_full\<close>
  holds resets \<open>is_currently_full\<close> to false and \<open>first_full_detection\<close> to true.
  Hence after a full reading followed by one or more readings that are not full, the
  next full reading finds \<open>should_send_email\<close> true whatever the clock is, and a
  successful send is recorded.
\<close>

theorem rearm_after_not_full:
  "(is_currently_full m \<and> d > 10 \<longrightarrow>
      \<not> is_currently_full (update_bin_status CONFIG env d m)
      \<and> first_full_detection (update_bin_status CONFIG env d m))
   \<and> (d1 \<le> 10 \<and> mid \<noteq> [] \<and> (\<forall>p \<in> set mid. snd p > 10) \<longrightarrow>
        should_send_email CONFIG now
          (full_entry (update_sequence CONFIG mid (update_bin_status CONFIG env1 d1 m))))
   \<and> (d1 \<le> 10 \<and> mid \<noteq> [] \<and> (\<forall>p \<in> set mid. snd p > 10) \<and> d3 \<le> 10
        \<and> send_email_alert (post_result env3) \<longrightarrow>
        last_email_time
          (update_bin_status CONFIG env3 d3
             (update_sequence CONFIG mid (update_bin_status CONFIG env1 d1 m)))
        = clock_sent env3)"
proof (intro conjI impI)
  assume a: "is_currently_full m \<and> d > 10"
  then show "\<not> is_currently_full (update_bin_status CONFIG env d m)"
    by (simp add: is_currently_full_after_update config_simps)
  from a show "first_full_detection (update_bin_status CONFIG env d m)"
    by (simp add: not_full_update)
next
  let ?m1 = "update_bin_status CONFIG env1 d1 m"
  assume a: "d1 \<le> 10 \<and> mid \<noteq> [] \<and> (\<forall>p \<in> set mid. snd p > 10)"
  then have "is_currently_full ?m1"
    by (simp add: is_currently_full_after_update config_simps)
  with a have "first_full_detection (update_sequence CONFIG mid ?m1)"
    using not_full_sequence [of mid ?m1] by simp
  then show "should_send_email CONFIG now (full_entry (update_sequence CONFIG mid ?m1))"
    by (simp add: should_send_email_def full_entry_email_state)
next
  let ?m1 = "update_bin_status CONFIG env1 d1 m"
  assume a: "d1 \<le> 10 \<and> mid \<noteq> [] \<and> (\<forall>p \<in> set mid. snd p > 10) \<and> d3 \<le> 10
        \<and> send_email_alert (post_result env3)"
  then have "is_currently_full ?m1"
    by (simp add: is_currently_full_after_update config_simps)
  with a have "first_full_detection (update_sequence CONFIG mid ?m1)"
    using not_full_sequence [of mid ?m1] by simp
  then have "should_send_email CONFIG (clock_check env3) (update_sequence CONFIG mid ?m1)"
    by (simp add: should_send_email_def)
  with a show "last_email_time (update_bin_status CONFIG env3 d3 (update_sequence CONFIG mid ?m1))
        = clock_sent env3"
    by (simp add: full_update)
qed

text \<open>
  Full at time 3, empty at time 4, full again at time 5, two seconds after the last
  e-mail.
\<close>

theorem rearm_after_not_full_witness:
  "\<not> is_currently_full
       (update_bin_status CONFIG \<lparr> clock_check = 4, post_result = PostRaised, clock_sent = 4 \<rparr> 50
          \<lparr> green_led = False, yellow_led = False, red_led = True,
            last_email_time = 3, is_currently_full = True,
            first_full_detection = False \<rparr>)
   \<and> first_full_detection
       (update_bin_status CONFIG \<lparr> clock_check = 4, post_result = PostRaised, clock_sent = 4 \<rparr> 50
          \<lparr> green_led = False, yellow_led = False, red_led = True,
            last_email_time = 3, is_currently_full = True,
            first_full_detection = False \<rparr>)
   \<and> should_send_email CONFIG 5
       (full_entry (update_sequence CONFIG
          [(\<lparr> clock_check = 4, post_result = PostRaised, clock_sent = 4 \<rparr>, 50)]
          (update_bin_status CONFIG \<lparr> clock_check = 3, post_result = Response 201, clock_sent = 3 \<rparr> 8
             \<lparr> green_led = False, yellow_led = False, red_led = True,
               last_email_time = 3, is_currently_full = True,
               first_full_detection = False \<rparr>)))
   \<and> last_email_time
       (update_bin_status CONFIG \<lparr> clock_check = 5, post_result = Response 201, clock_sent = 6 \<rparr> 8
          (update_sequence CONFIG
             [(\<lparr> clock_check = 4, post_result = PostRaised, clock_sent = 4 \<rparr>, 50)]
             (update_bin_status CONFIG \<lparr> clock_check = 3, post_result = Response 201, clock_sent = 3 \<rparr> 8
                \<lparr> green_led = False, yellow_led = False, red_led = True,
                  last_email_time = 3, is_currently_full = True,
                  first_full_detection = False \<rparr>))) = 6"
  using rearm_after_not_full
    [of "\<lparr> green_led = False, yellow_led = False, red_led = True,
            last_email_time = 3, is_currently_full = True,
            first_full_detection = False \<rparr>"
        50 "\<lparr> clock_check = 4, post_result = PostRaised, clock_sent = 4 \<rparr>"
        8 "[(\<lparr> clock_check = 4, post_result = PostRaised, clock_sent = 4 \<rparr>, 50)]"
        5 "\<lparr> clock_check = 3, post_result = Response 201, clock_sent = 3 \<rparr>"
        8 "\<lparr> clock_check = 5, post_result = Response 201, clock_sent = 6 \<rparr>"]
  by simp

text \<open>
  Claim C5. On a full reading, a send that fails leaves \<open>last_email_time\<close> and
  \<open>first_full_detection\<close> as they were; an exception of the transport is a failed
  send. The two attributes are assigned (the clock after the send, and false) when the
  send is attempted and succeeds, and they change in no other case.
\<close>

theorem failed_send_keeps_state:
  assumes "d \<le> 10"
  shows "send_email_alert PostRaised = False
         \<and> (\<not> send_email_alert (post_result env) \<longrightarrow>
              last_email_time (update_bin_status CONFIG env d m) = last_email_time m
              \<and> first_full_detection (update_bin_status CONFIG env d m) = first_full_detection m)
         \<and> (should_send_email CONFIG (clock_check env) (full_entry m)
              \<and> send_email_alert (post_result env) \<longrightarrow>
              last_email_time (update_bin_status CONFIG env d m) = clock_sent env
              \<and> \<not> first_full_detection (update_bin_status CONFIG env d m))
         \<and> (last_email_time (update_bin_status CONFIG env d m) \<noteq> last_email_time m
              \<or> first_full_detection (update_bin_status CONFIG env d m) \<noteq> first_full_detection m
            \<longrightarrow> should_send_email CONFIG (clock_check env) (full_entry m)
                 \<and> send_email_alert (post_result env))"
  using assms
  by (auto simp add: should_send_email_full_entry full_update)

text \<open>
  A fresh object and a full reading: status 500 and a raising transport change nothing,
  status 201 records the send.
\<close>

theorem failed_send_keeps_state_witness:
  "last_email_time
     (update_bin_status CONFIG \<lparr> clock_check = 7, post_result = Response 500, clock_sent = 8 \<rparr> 8
        (init False False False)) = 0
   \<and> first_full_detection
     (update_bin_status CONFIG \<lparr> clock_check = 7, post_result = Response 500, clock_sent = 8 \<rparr> 8
        (init False False False))
   \<and> last_email_time
     (update_bin_status CONFIG \<lparr> clock_check = 7, post_result = PostRaised, clock_sent = 8 \<rparr> 8
        (init False False False)) = 0
   \<and> last_email_time
     (update_bin_status CONFIG \<lparr> clock_check = 7, post_result = Response 201, clock_sent = 8 \<rparr> 8
        (init False False False)) = 8
   \<and> \<not> first_full_detection
     (update_bin_status CONFIG \<lparr> clock_check = 7, post_result = Response 201, clock_sent = 8 \<rparr> 8
        (init False False False))"
proof -
  have h: "(8::real) \<le> 10" by simp
  have s: "should_send_email CONFIG 7 (full_entry (init False False False))"
    by (simp add: should_send_email_def full_entry_def init_def)
  show ?thesis
    using failed_send_keeps_state [OF h, of "\<lparr> clock_check = 7, post_result = Response 500, clock_sent = 8 \<rparr>" "init False False False"]
      failed_send_keeps_state [OF h, of "\<lparr> clock_check = 7, post_result = PostRaised, clock_sent = 8 \<rparr>" "init False False False"]
      failed_send_keeps_state [OF h, of "\<lparr> clock_check = 7, post_result = Response 201, clock_sent = 8 \<rparr>" "init False False False"]
      s
    by (simp add: init_def)
qed

section \<open>Properties of the measurement\<close>

lemma ticks_eval:
  "ticks_add 0 30000 = 30000"
  "ticks_diff 6 30000 = -29994"
  "ticks_diff 0 5 = -5"
  "ticks_diff 20001 30000 = -9999"
  "ticks_diff 30002 30000 = 2"
  by (simp_all add: ticks_add_def ticks_diff_def TICKS_PERIOD_def)

lemma wait_while_low_Expired:
  "wait_while_low timeout ps es ts = Some Expired \<Longrightarrow> \<exists>t \<in> set ts. ticks_diff t timeout > 0"
  by (induction timeout ps es ts rule: wait_while_low.induct)
     (auto split: if_splits list.splits)

lemma wait_while_high_Expired:
  "wait_while_high timeout pe es ts = Some Expired \<Longrightarrow> \<exists>t \<in> set ts. ticks_diff t timeout > 0"
  by (induction timeout pe es ts rule: wait_while_high.induct)
     (auto split: if_splits list.splits)

lemma wait_while_low_stuck:
  "\<forall>e \<in> set es. \<not> e \<Longrightarrow> wait_while_low timeout ps es ts = Some r \<Longrightarrow> r = Expired"
  by (induction timeout ps es ts rule: wait_while_low.induct)
     (auto split: if_splits list.splits)

lemma wait_while_high_stuck:
  "\<forall>e \<in> set es. e \<Longrightarrow> wait_while_high timeout pe es ts = Some r \<Longrightarrow> r = Expired"
  by (induction timeout pe es ts rule: wait_while_high.induct)
     (auto split: if_splits list.splits)

text \<open>
  Claim C6. When the deadline check of either wait loop of \<open>measure_distance\<close> fires,
  \<open>measure_distance\<close> returns the value 100 (a value, not an exception), and with the
  configured thresholds the reading 100 shows empty, not full: the object is not marked
  full and no e-mail is recorded.
\<close>

theorem timeout_reads_empty:
  assumes "ticks w = t0 # ts"
    and "wait_while_low (ticks_add t0 30000) t0 (echo_values w) ts = Some Expired
         \<or> (\<exists>pulse_start es ts1.
               wait_while_low (ticks_add t0 30000) t0 (echo_values w) ts
                 = Some (Passed pulse_start es ts1)
               \<and> wait_while_high (ticks_add t0 30000) t0 es ts1 = Some Expired)"
  shows "measure_distance w = Some 100
         \<and> shown_level (update_bin_status CONFIG env 100 m) = Some Empty
         \<and> shown_level (update_bin_status CONFIG env 100 m) \<noteq> Some Full
         \<and> \<not> is_currently_full (update_bin_status CONFIG env 100 m)
         \<and> last_email_time (update_bin_status CONFIG env 100 m) = last_email_time m"
proof -
  have "measure_distance w = Some 100"
    using assms by (auto simp add: measure_distance_def Let_def)
  moreover have "shown_level (update_bin_status CONFIG env 100 m) = Some Empty"
    by (simp add: shown_level_def leds_after_update config_simps)
  moreover have "\<not> is_currently_full (update_bin_status CONFIG env 100 m)"
    by (simp add: is_currently_full_after_update config_simps)
  moreover have "last_email_time (update_bin_status CONFIG env 100 m) = last_email_time m"
    by (simp add: not_full_update)
  ultimately show ?thesis by simp
qed

text \<open>
  An echo line stuck low and an echo line stuck high, with the clock passing 30000
  microseconds after the start.
\<close>

theorem timeout_reads_empty_witness:
  "measure_distance \<lparr> echo_values = [False, False], ticks = [0, 20000, 20001, 30001, 30002] \<rparr>
     = Some 100
   \<and> measure_distance \<lparr> echo_values = [True, True, True], ticks = [0, 20000, 20001, 30001, 30002] \<rparr>
     = Some 100
   \<and> shown_level (update_bin_status CONFIG
        \<lparr> clock_check = 0, post_result = Response 201, clock_sent = 0 \<rparr> 100
        (init False False False)) = Some Empty"
proof -
  let ?lo = "\<lparr> echo_values = [False, False], ticks = [0, 20000, 20001, 30001, 30002] \<rparr>"
  let ?hi = "\<lparr> echo_values = [True, True, True], ticks = [0, 20000, 20001, 30001, 30002] \<rparr>"
  have t: "ticks ?lo = 0 # [20000, 20001, 30001, 30002]"
          "ticks ?hi = 0 # [20000, 20001, 30001, 30002]"
    by simp_all
  have lo: "wait_while_low (ticks_add 0 30000) 0 (echo_values ?lo) [20000, 20001, 30001, 30002]
              = Some Expired"
    by (simp add: ticks_eval)
  have hi: "\<exists>pulse_start es ts1.
               wait_while_low (ticks_add 0 30000) 0 (echo_values ?hi) [20000, 20001, 30001, 30002]
                 = Some (Passed pulse_start es ts1)
               \<and> wait_while_high (ticks_add 0 30000) 0 es ts1 = Some Expired"
    by (simp add: ticks_eval)
  show ?thesis
    using timeout_reads_empty [OF t(1) disjI1 [OF lo]] timeout_reads_empty [OF t(2) disjI2 [OF hi]]
    by simp
qed

text \<open>
  Claim C7 fails on the code. The echo pin reads 0, then 1, then 0: the first loop runs
  once and sets \<open>pulse_start\<close> to 5, the second loop does not run, and \<open>pulse_end\<close>
  keeps the clock value 0 it was given before the first wait. No deadline check fires, the
  pulse duration is -5, and the returned distance is negative. That distance shows
  full, and a fresh object sends the alert.
\<close>

theorem stale_pulse_end_negative_distance:
  "measure_distance \<lparr> echo_values = [False, True, False], ticks = [0, 5, 6] \<rparr>
     = Some (- 5 / 2 / 29.1)
   \<and> (- 5 / 2 / 29.1 :: real) < 0
   \<and> wait_while_low (ticks_add 0 30000) 0 [False, True, False] [5, 6]
       = Some (Passed 5 [False] [])
   \<and> wait_while_high (ticks_add 0 30000) 0 [False] [] = Some (Passed 0 [] [])
   \<and> shown_level (update_bin_status CONFIG
        \<lparr> clock_check = 0, post_result = Response 201, clock_sent = 0 \<rparr> (- 5 / 2 / 29.1)
        (init False False False)) = Some Full
   \<and> last_email_time (update_bin_status CONFIG
        \<lparr> clock_check = 7, post_result = Response 201, clock_sent = 8 \<rparr> (- 5 / 2 / 29.1)
        (init False False False)) = 8"
  by (simp add: measure_distance_def ticks_eval shown_level_def leds_after_update config_simps
      full_update should_send_email_def init_def)

text \<open>
  What does hold: with clock readings that do not decrease and stay below half the
  tick period, a measurement whose second wait runs at least one round (the pin reads 1
  when that wait starts) returns a distance that is not negative.
\<close>

lemma ticks_diff_near:
  assumes "0 \<le> a - b" and "a - b < 2 ^ 29"
  shows "ticks_diff a b = a - b"
  using assms by (simp add: ticks_diff_def TICKS_PERIOD_def)

lemma wait_while_low_Passed:
  "wait_while_low timeout p0 es ts = Some (Passed ps es1 ts1) \<Longrightarrow>
     \<exists>pre. ts = pre @ ts1 \<and> (ps = p0 \<or> ps \<in> set pre)"
proof (induction timeout p0 es ts rule: wait_while_low.induct)
  case (1 timeout pulse_start ts)
  then show ?case by simp
next
  case (2 timeout pulse_start e es ts)
  show ?case
  proof (cases e)
    case True
    with 2 show ?thesis by simp
  next
    case False
    with "2.prems" obtain t1 t2 ts' where ts: "ts = t1 # t2 # ts'"
      and nx: "\<not> ticks_diff t2 timeout > 0"
      and rec: "wait_while_low timeout t1 es ts' = Some (Passed ps es1 ts1)"
      by (auto split: list.splits if_splits)
    from "2.IH" [of t1 "t2 # ts'" t2 ts'] False ts nx rec obtain pre where
      "ts' = pre @ ts1" "ps = t1 \<or> ps \<in> set pre" by auto
    then have "ts = (t1 # t2 # pre) @ ts1 \<and> (ps = pulse_start \<or> ps \<in> set (t1 # t2 # pre))"
      using ts by auto
    then show ?thesis by blast
  qed
qed

lemma wait_while_high_Passed:
  "wait_while_high timeout p0 (True # es) ts = Some (Passed pe es2 ts2) \<Longrightarrow> pe \<in> set ts"
  "wait_while_high timeout p0 es ts = Some (Passed pe es2 ts2) \<Longrightarrow> pe = p0 \<or> pe \<in> set ts"
proof -
  show g: "wait_while_high timeout p0 es ts = Some (Passed pe es2 ts2) \<Longrightarrow> pe = p0 \<or> pe \<in> set ts"
    for p0 es ts
    by (induction timeout p0 es ts rule: wait_while_high.induct)
       (auto split: list.splits if_splits)
  show "wait_while_high timeout p0 (True # es) ts = Some (Passed pe es2 ts2) \<Longrightarrow> pe \<in> set ts"
    using g by (fastforce split: list.splits if_splits)
qed

lemma pulse_seen_nonnegative:
  assumes "ticks w = t0 # ts"
    and "sorted (t0 # ts)"
    and "\<forall>t \<in> set (t0 # ts). 0 \<le> t \<and> t < 2 ^ 29"
    and "wait_while_low (ticks_add t0 30000) t0 (echo_values w) ts
           = Some (Passed pulse_start (True # es) ts1)"
    and "measure_distance w = Some d"
  shows "0 \<le> d"
proof -
  from wait_while_low_Passed [OF assms(4)] obtain pre where
    pre: "ts = pre @ ts1" and ps: "pulse_start = t0 \<or> pulse_start \<in> set pre" by blast
  have le: "\<forall>t \<in> set ts1. pulse_start \<le> t"
    using assms(2) ps pre by (auto simp add: sorted_append)
  have rng: "\<forall>t \<in> set ts1. t < 2 ^ 29" "0 \<le> pulse_start"
    using assms(3) ps pre by auto
  show ?thesis
  proof (cases "wait_while_high (ticks_add t0 30000) t0 (True # es) ts1")
    case None
    with assms(1,4,5) show ?thesis by (simp add: measure_distance_def Let_def)
  next
    case (Some r)
    show ?thesis
    proof (cases r)
      case Expired
      with Some assms(1,4,5) show ?thesis by (simp add: measure_distance_def Let_def)
    next
      case (Passed pe es2 ts2)
      with Some wait_while_high_Passed(1) have "pe \<in> set ts1" by blast
      with le rng have "0 \<le> pe - pulse_start" "pe - pulse_start < 2 ^ 29" by auto
      then have "ticks_diff pe pulse_start = pe - pulse_start" "0 \<le> pe - pulse_start"
        by (simp_all add: ticks_diff_near)
      with Some Passed assms(1,4,5) show ?thesis
        by (simp add: measure_distance_def Let_def)
    qed
  qed
qed

section \<open>Properties of the monitoring loop\<close>

lemma measure_eval:
  "measure_distance \<lparr> echo_values = [False, True, True, False], ticks = [0, 100, 101, 391, 392] \<rparr>
     = Some 5"
  by (simp add: measure_distance_def ticks_add_def ticks_diff_def TICKS_PERIOD_def)









text \<open>
  The record of the four cycles above and the object after them.
\<close>

lemma run_example:
  "run CONFIG 0 [(False, 0), (True, 1)]
      [\<lparr> fault_in = Some (Fault Measurement ExceptionClass),
         sensor_in = \<lparr> echo_values = [], ticks = [] \<rparr>,
         alert_in = \<lparr> clock_check = 2, post_result = PostRaised, clock_sent = 2 \<rparr> \<rparr>,
       \<lparr> fault_in = None,
         sensor_in = \<lparr> echo_values = [False, True, True, False], ticks = [0, 100, 101, 391, 392] \<rparr>,
         alert_in = \<lparr> clock_check = 7, post_result = Response 201, clock_sent = 8 \<rparr> \<rparr>,
       \<lparr> fault_in = Some (Fault Classification ExceptionClass),
         sensor_in = \<lparr> echo_values = [False, True, True, False], ticks = [0, 100, 101, 391, 392] \<rparr>,
         alert_in = \<lparr> clock_check = 17, post_result = Response 201, clock_sent = 18 \<rparr> \<rparr>,
       \<lparr> fault_in = Some (Fault Notification ExceptionClass),
         sensor_in = \<lparr> echo_values = [False, True, True, False], ticks = [0, 100, 101, 391, 392] \<rparr>,
         alert_in = \<lparr> clock_check = 22, post_result = Response 201, clock_sent = 23 \<rparr> \<rparr>]
      (init False False False)
    = Some (InLoop (Looping
         [(Some Measurement, 5), (None, 10), (Some Classification, 5), (Some Notification, 5)]
         \<lparr> green_led = False, yellow_led = False, red_led = True, last_email_time = 8,
           is_currently_full = True, first_full_detection = False \<rparr>))"
  by (simp add: run_def cycle_def loop_body_def measure_eval update_bin_status_def
      branch_full_def full_entry_def notify_def should_send_email_def Let_def CONFIG_def init_def)

end
